theory Spec2Isabelle
  imports Complex_Main
begin

section \<open>Errors\<close>

text \<open>
  The sentinel errors of package \<open>data\<close> (\<open>ErrRecordNotFound\<close>, \<open>ErrEditConflict\<close>,
  \<open>ErrOutOfStock\<close>), the driver's \<open>pgx.ErrNoRows\<close> (the cases \<open>sql.ErrNoRows\<close> and
  \<open>pgx.ErrNoRows\<close> of every switch lead to the same result, so one constructor stands for
  both), and the errors of the store that the schema of the migrations can raise:
  a violated check constraint (relation, constraint), a violated foreign key (relation),
  a value outside the range of its column, a string longer than its column, an argument
  the driver cannot encode as a four-byte integer, and a call whose number of arguments
  differs from the number of placeholders of its statement (expected, got).
  A lost connection and the three-second timeout of a call are outside the model.
\<close>

datatype error =
    ErrRecordNotFound
  | ErrEditConflict
  | ErrOutOfStock
  | ErrNoRows
  | CheckViolation string string
  | ForeignKeyViolation string
  | NumericValueOutOfRange
  | StringDataRightTruncation
  | EncodeError
  | ArgumentCount nat nat

section \<open>The schema\<close>

text \<open>
  Every \<open>integer\<close> and \<open>SERIAL\<close> column of the migrations holds a four-byte integer.
\<close>

definition int4 :: "int \<Rightarrow> bool" where
  "int4 n = (- 2147483648 \<le> n \<and> n \<le> 2147483647)"

text \<open>
  A \<open>VARCHAR(n)\<close> column takes a string of more than \<open>n\<close> characters only when the
  excess is spaces, which it cuts; \<open>DECIMAL(10,2)\<close> takes absolute values below
  \<open>10\<^sup>8\<close>.
\<close>

definition varchar :: "nat \<Rightarrow> string \<Rightarrow> bool" where
  "varchar n s = list_all (\<lambda>c. c = CHR '' '') (drop n s)"

definition numeric_10_2 :: "rat \<Rightarrow> bool" where
  "numeric_10_2 x = (\<bar>x\<bar> < 100000000)"

text \<open>
  The rows of the tables, one record per table, the primary key apart (it is the key of
  the table's map). Timestamps are left out. \<open>NUMERIC(10, 2)\<close> columns and the
  \<open>float64\<close> fields read from them are exact rationals: prices carry two decimals, so
  no rounding takes place.
\<close>

record products_row =
  p_title :: string
  p_owner :: int
  p_description :: string
  p_images :: "string list"
  p_colors :: "string list"
  p_quantity :: int
  p_price :: rat
  p_version :: int

record categories_row =
  c_title :: string
  c_image :: string

record orders_row =
  o_user_id :: int
  o_status :: int
  o_total_price :: rat
  o_address :: string
  o_version :: int

record order_items_row =
  oi_order_id :: int
  oi_product_id :: int
  oi_quantity :: int

record ratings_row =
  r_product_id :: int
  r_user_id :: int
  r_rating :: int
  r_comment :: string

record store =
  users :: "int set"
  products :: "int \<rightharpoonup> products_row"
  product_category :: "(int \<times> int) list"
  categories :: "int \<rightharpoonup> categories_row"
  orders :: "int \<rightharpoonup> orders_row"
  orders_id_seq :: int
  order_items :: "order_items_row list"
  ratings :: "ratings_row list"

text \<open>
  Modelled from the spec: the check constraint \<open>quantity_check\<close> of relation \<open>products\<close>.
  \<open>OrderModel.Insert\<close> names it in the error it compares against, but the migration that
  adds it is not among the sources; the spec (4.1, step 2) calls it
  "a non-negativity constraint on quantity".
\<close>

definition quantity_check :: "int \<Rightarrow> bool" where
  "quantity_check q = (0 \<le> q)"

section \<open>The structs of package data\<close>

record RatingSchema =
  RatingSchema_UserId :: int
  RatingSchema_Rating :: int
  RatingSchema_Comment :: string

record Category =
  Category_ID :: int
  Category_Title :: string
  Category_Image :: string

record Product =
  Product_ID :: int
  Product_Title :: string
  Product_Owner :: int
  Product_Description :: string
  Product_Quantity :: int
  Product_Colors :: "string list"
  Product_Images :: "string list"
  Product_Price :: rat
  Product_Version :: int
  Product_Categories :: "Category list"
  Product_Ratings :: "RatingSchema list"

record OrderItem =
  OrderItem_ProductId :: int
  OrderItem_Quantity :: int

text \<open>
  \<open>Order.OrderItems\<close> is a slice that may be \<open>nil\<close>: \<open>None\<close> is the nil slice,
  \<open>Some []\<close> the empty one. \<open>slice\<close> gives the elements a \<open>range\<close> loop visits.
\<close>

record Order =
  Order_ID :: int
  Order_Status :: int
  Order_Address :: string
  Order_UserId :: int
  Order_TotalPrice :: rat
  Order_OrderItems :: "OrderItem list option"
  Order_Version :: int

definition slice :: "'a list option \<Rightarrow> 'a list" where
  "slice xs = (case xs of None \<Rightarrow> [] | Some l \<Rightarrow> l)"

section \<open>Order placement: OrderModel.Insert\<close>

text \<open>
  The statement of lines 61-63, with its \<open>Scan\<close>: the product row of the given id.
\<close>

definition select_product :: "store \<Rightarrow> int \<Rightarrow> error + Product" where
  "select_product db pid =
     (if \<not> int4 pid then Inl EncodeError
      else case products db pid of
        None \<Rightarrow> Inl ErrNoRows
      | Some row \<Rightarrow>
          Inr \<lparr>Product_ID = pid, Product_Title = p_title row, Product_Owner = p_owner row,
               Product_Description = p_description row, Product_Quantity = p_quantity row,
               Product_Colors = p_colors row, Product_Images = p_images row,
               Product_Price = p_price row, Product_Version = p_version row,
               Product_Categories = [], Product_Ratings = []\<rparr>)"

text \<open>
  The statement of lines 89-94:
  \<open>UPDATE products SET quantity = quantity - $1, version = version + 1
    WHERE product_id = $2 AND version = $3 RETURNING version\<close>.
  No row matches when the product is gone or its version differs; the new row must fit
  its columns and satisfy the check constraint. A statement that fails changes nothing.
\<close>

definition decrement_stock :: "store \<Rightarrow> int \<Rightarrow> int \<Rightarrow> int \<Rightarrow> error + int \<times> store" where
  "decrement_stock db qty pid ver =
     (if \<not> (int4 qty \<and> int4 pid \<and> int4 ver) then Inl EncodeError
      else case products db pid of
        None \<Rightarrow> Inl ErrNoRows
      | Some row \<Rightarrow>
          if p_version row \<noteq> ver then Inl ErrNoRows
          else if \<not> (int4 (p_quantity row - qty) \<and> int4 (p_version row + 1))
            then Inl NumericValueOutOfRange
          else if \<not> quantity_check (p_quantity row - qty)
            then Inl (CheckViolation ''products'' ''quantity_check'')
          else Inr (p_version row + 1,
                 db\<lparr>products := (products db)(pid \<mapsto>
                   row\<lparr>p_quantity := p_quantity row - qty,
                       p_version := p_version row + 1\<rparr>)\<rparr>))"

text \<open>
  Lines 89-104: the guarded decrement for a product row read earlier, and the switch
  over its error.
\<close>

definition reserve :: "Product \<Rightarrow> OrderItem \<Rightarrow> store \<Rightarrow> error + store" where
  "reserve product item db =
     (case decrement_stock db (OrderItem_Quantity item) (Product_ID product)
             (Product_Version product) of
        Inl err \<Rightarrow>
          if err = CheckViolation ''products'' ''quantity_check'' then Inl ErrOutOfStock
          else if err = ErrNoRows then Inl ErrRecordNotFound
          else Inl err
      | Inr (ver, db') \<Rightarrow> Inr db')"

text \<open>
  The first loop (lines 56-106), with the running total as an argument. An error ends
  the loop and the call; the store keeps what the earlier statements wrote.
\<close>

fun reserve_items :: "OrderItem list \<Rightarrow> rat \<Rightarrow> store \<Rightarrow> (error + rat) \<times> store" where
  "reserve_items [] totalPrice db = (Inr totalPrice, db)"
| "reserve_items (item # items) totalPrice db =
     (if OrderItem_ProductId item < 1 then (Inl ErrRecordNotFound, db)
      else case select_product db (OrderItem_ProductId item) of
        Inl err \<Rightarrow> (if err = ErrNoRows then (Inl ErrRecordNotFound, db) else (Inl err, db))
      | Inr product \<Rightarrow>
          (case reserve product item db of
             Inl err \<Rightarrow> (Inl err, db)
           | Inr db' \<Rightarrow>
               reserve_items items
                 (totalPrice + (Product_Price product + of_int (OrderItem_Quantity item))) db'))"

text \<open>
  The statement of lines 107-109:
  \<open>INSERT INTO orders (user_id, total_price, address) VALUES ($1, $2, $3)
    RETURNING id, ordered_at, user_id\<close>,
  against the table of migration 000008: \<open>user_id\<close> references \<open>users\<close>,
  \<open>total_price\<close> is \<open>DECIMAL(10,2)\<close>, \<open>address\<close> is \<open>VARCHAR(255)\<close> (excess spaces are
  cut, any other excess is an error), \<open>status\<close> defaults to 0 and \<open>version\<close> to 1;
  the id is the next value of the sequence of the \<open>SERIAL\<close> column.
\<close>

definition insert_order :: "store \<Rightarrow> int \<Rightarrow> rat \<Rightarrow> string \<Rightarrow> error + (int \<times> int) \<times> store" where
  "insert_order db userId totalPrice address =
     (if \<not> int4 userId then Inl EncodeError
      else if \<not> numeric_10_2 totalPrice then Inl NumericValueOutOfRange
      else if \<not> varchar 255 address then Inl StringDataRightTruncation
      else if \<not> int4 (orders_id_seq db) then Inl NumericValueOutOfRange
      else if userId \<notin> users db then Inl (ForeignKeyViolation ''orders'')
      else Inr ((orders_id_seq db, userId),
             db\<lparr>orders := (orders db)(orders_id_seq db \<mapsto>
                   \<lparr>o_user_id = userId, o_status = 0, o_total_price = totalPrice,
                    o_address = take 255 address, o_version = 1\<rparr>),
                orders_id_seq := orders_id_seq db + 1\<rparr>))"

text \<open>
  The statement of line 115:
  \<open>INSERT INTO order_items (order_id, product_id, quantity) VALUES ($1, $2, $3)\<close>;
  both ids are foreign keys (migration 000009). The generated id of the row is not kept.
\<close>

definition insert_order_item :: "store \<Rightarrow> int \<Rightarrow> int \<Rightarrow> int \<Rightarrow> error + store" where
  "insert_order_item db oid pid qty =
     (if \<not> (int4 oid \<and> int4 pid \<and> int4 qty) then Inl EncodeError
      else if orders db oid = None then Inl (ForeignKeyViolation ''order_items'')
      else if products db pid = None then Inl (ForeignKeyViolation ''order_items'')
      else Inr (db\<lparr>order_items := order_items db @
                  [\<lparr>oi_order_id = oid, oi_product_id = pid, oi_quantity = qty\<rparr>]\<rparr>))"

text \<open>The second loop (lines 116-121).\<close>

fun insert_order_items :: "int \<Rightarrow> OrderItem list \<Rightarrow> store \<Rightarrow> error option \<times> store" where
  "insert_order_items oid [] db = (None, db)"
| "insert_order_items oid (item # items) db =
     (case insert_order_item db oid (OrderItem_ProductId item) (OrderItem_Quantity item) of
        Inl err \<Rightarrow> (Some err, db)
      | Inr db' \<Rightarrow> insert_order_items oid items db')"

text \<open>
  \<open>OrderModel.Insert\<close> (lines 52-123). Every statement goes to the pool on its own: there
  is no transaction, so the store returned with an error is the store as the statements
  before the failing one left it. On success the order carries the generated id, the
  user id and the total (the conversions of the quantity to \<open>float64\<close> and of the total
  to \<open>float32\<close> are exact here); on an error the caller does not read the order.
\<close>

definition OrderModel_Insert :: "int \<Rightarrow> Order \<Rightarrow> store \<Rightarrow> (error + Order) \<times> store" where
  "OrderModel_Insert userId order db =
     (case reserve_items (slice (Order_OrderItems order)) 0 db of
        (Inl err, db1) \<Rightarrow> (Inl err, db1)
      | (Inr totalPrice, db1) \<Rightarrow>
          (case insert_order db1 userId totalPrice (Order_Address order) of
             Inl err \<Rightarrow> (Inl err, db1)
           | Inr ((oid, uid), db2) \<Rightarrow>
               (case insert_order_items oid (slice (Order_OrderItems order)) db2 of
                  (Some err, db3) \<Rightarrow> (Inl err, db3)
                | (None, db3) \<Rightarrow>
                    (Inr (order\<lparr>Order_ID := oid, Order_UserId := uid,
                                Order_TotalPrice := totalPrice\<rparr>), db3))))"


section \<open>The validator and the responses\<close>

text \<open>
  Modelled from the spec: package \<open>validator\<close> is not among the sources. The spec (6)
  gives its interface: "accumulate named-field violations; valid() query; caller inspects
  a mapping of field\<rightarrow>message on failure". The violations are kept as a list of
  (field, message) pairs with one message per field; \<open>In\<close> is membership in a list of
  permitted values.
\<close>

type_synonym Validator = "(string \<times> string) list"

definition New :: Validator where
  "New = []"

definition AddError :: "Validator \<Rightarrow> string \<Rightarrow> string \<Rightarrow> Validator" where
  "AddError v key message = (if map_of v key = None then v @ [(key, message)] else v)"

definition Check :: "Validator \<Rightarrow> bool \<Rightarrow> string \<Rightarrow> string \<Rightarrow> Validator" where
  "Check v ok key message = (if ok then v else AddError v key message)"

definition Valid :: "Validator \<Rightarrow> bool" where
  "Valid v = (v = [])"

definition In :: "string \<Rightarrow> string list \<Rightarrow> bool" where
  "In x permitted = (x \<in> set permitted)"

text \<open>
  What a handler answers: \<open>writeJSON\<close> with status 200 or 201 and its payload, or one of
  the error helpers of the application (400, 403, 404, 409, 422 with the violations, 500
  with the error logged).
\<close>

datatype 'a response =
    StatusOK 'a
  | StatusCreated 'a
  | badRequestResponse
  | notPermittedReview
  | notFoundResponse
  | editConflictResponse
  | failedValidationResponse Validator
  | serverErrorResponse error

text \<open>\<open>ValidateOrder\<close> (lines 31-39): no check reads the quantity of an item.\<close>

definition ValidateOrder :: "Validator \<Rightarrow> Order \<Rightarrow> Validator" where
  "ValidateOrder v0 order =
     (let v1 = Check v0 (Order_Address order \<noteq> []) ''address'' ''must be provided'';
          v2 = Check v1 (0 \<le> Order_UserId order) ''user'' ''must be provided'';
          v3 = Check v2 (Order_OrderItems order \<noteq> None) ''order_items'' ''must be provided'';
          v4 = Check v3 (1 \<le> length (slice (Order_OrderItems order))) ''order_items''
                 ''must contain at least 1 order item''
      in v4)"

text \<open>
  \<open>orderProductHandler\<close> (cmd/api/orders.go, lines 11-48). Its arguments are the id of
  the authenticated user and the body as \<open>readJSON\<close> decoded it (\<open>Inl\<close> when it could
  not). Every error of \<open>Insert\<close> is answered as a server error.
\<close>

record order_input =
  input_OrderItems :: "OrderItem list option"
  input_Address :: string

definition orderProductHandler ::
  "int \<Rightarrow> string + order_input \<Rightarrow> store \<Rightarrow> Order response \<times> store" where
  "orderProductHandler userID body db =
     (case body of
        Inl err \<Rightarrow> (badRequestResponse, db)
      | Inr input \<Rightarrow>
          (let order = \<lparr>Order_ID = 0, Order_Status = 0, Order_Address = input_Address input,
                        Order_UserId = userID, Order_TotalPrice = 0,
                        Order_OrderItems = input_OrderItems input, Order_Version = 0\<rparr>;
               v = ValidateOrder New order
           in if \<not> Valid v then (failedValidationResponse v, db)
              else case OrderModel_Insert userID order db of
                (Inl err, db') \<Rightarrow> (serverErrorResponse err, db')
              | (Inr order', db') \<Rightarrow> (StatusCreated order', db')))"

section \<open>Stock, demand and sequences of placements\<close>




text \<open>
  A sequence of placements, each a user id and an order, run one after the other:
  the store they leave, and the quantity of product \<open>p\<close> that the placements that
  returned success ordered.
\<close>

fun run_placements :: "(int \<times> Order) list \<Rightarrow> store \<Rightarrow> store" where
  "run_placements [] db = db"
| "run_placements ((userId, order) # rest) db =
     run_placements rest (snd (OrderModel_Insert userId order db))"



text \<open>
  One statement of a placement that succeeds, with any arguments: a guarded decrement, the
  insert of an order row, the insert of an item row. The statements of placements that
  run at the same time reach the store one after the other, in some order: whatever the
  order, the store goes through a sequence of such steps (a statement that fails writes
  nothing).
\<close>

inductive statement :: "store \<Rightarrow> store \<Rightarrow> bool" where
  decrement: "decrement_stock db qty pid ver = Inr (v, db') \<Longrightarrow> statement db db'"
| header: "insert_order db userId totalPrice address = Inr (ids, db') \<Longrightarrow> statement db db'"
| line: "insert_order_item db oid pid qty = Inr db' \<Longrightarrow> statement db db'"

section \<open>The review gate\<close>

text \<open>\<open>ValidateReview\<close> (lines 48-51 of the product model).\<close>

definition ValidateReview :: "Validator \<Rightarrow> RatingSchema \<Rightarrow> Validator" where
  "ValidateReview v0 review =
     (let v1 = Check v0 (0 \<le> RatingSchema_Rating review) ''rating'' ''must not be less than 0'';
          v2 = Check v1 (0 \<le> RatingSchema_UserId review) ''user_id'' ''must be provided''
      in v2)"

text \<open>
  \<open>OrderModel.IsUserOrderedProduct\<close> (lines 289-319). The statement has no placeholder:
  it asks whether user 3 has an order with an item of product 9, whatever \<open>userId\<close> and
  \<open>productId\<close> are, and the call passes the two as arguments all the same. What the
  driver does with arguments a statement has no placeholder for is not in the sources:
  \<open>strict\<close> says that it refuses the call, otherwise the statement runs. The Go pair
  \<open>(false, err)\<close> is \<open>Inl err\<close>.
\<close>

definition IsUserOrderedProduct :: "bool \<Rightarrow> int \<Rightarrow> int \<Rightarrow> store \<Rightarrow> error + bool" where
  "IsUserOrderedProduct strict userId productId db =
     (if productId < 1 then Inl ErrRecordNotFound
      else if strict then Inl (ArgumentCount 0 2)
      else Inr (list_ex
                  (\<lambda>item. oi_product_id item = 9 \<and>
                     (case orders db (oi_order_id item) of
                        None \<Rightarrow> False
                      | Some row \<Rightarrow> o_user_id row = 3))
                  (order_items db)))"

text \<open>
  \<open>ProductModel.InsertReview\<close> (lines 334-345), against the table of migration 000006:
  \<open>product_id\<close> references \<open>products\<close> and \<open>user_id\<close> references \<open>categories(id)\<close>.
\<close>

definition ProductModel_InsertReview :: "RatingSchema \<Rightarrow> int \<Rightarrow> store \<Rightarrow> error option \<times> store" where
  "ProductModel_InsertReview rating productId db =
     (if \<not> (int4 productId \<and> int4 (RatingSchema_UserId rating)
              \<and> int4 (RatingSchema_Rating rating)) then (Some EncodeError, db)
      else if products db productId = None then (Some (ForeignKeyViolation ''ratings''), db)
      else if categories db (RatingSchema_UserId rating) = None
        then (Some (ForeignKeyViolation ''ratings''), db)
      else (None, db\<lparr>ratings := ratings db @
                     [\<lparr>r_product_id = productId, r_user_id = RatingSchema_UserId rating,
                       r_rating = RatingSchema_Rating rating,
                       r_comment = RatingSchema_Comment rating\<rparr>]\<rparr>))"

text \<open>
  \<open>createReviewHandler\<close> (cmd/api/products.go, lines 229-275), for the authenticated
  user \<open>userID\<close> and the decoded body.
\<close>

record review_input =
  input_ProductId :: int
  input_Rating :: int
  input_Comment :: string

definition createReviewHandler ::
  "bool \<Rightarrow> int \<Rightarrow> string + review_input \<Rightarrow> store \<Rightarrow> RatingSchema response \<times> store" where
  "createReviewHandler strict userID body db =
     (case body of
        Inl err \<Rightarrow> (badRequestResponse, db)
      | Inr input \<Rightarrow>
          (let review = \<lparr>RatingSchema_UserId = userID, RatingSchema_Rating = input_Rating input,
                         RatingSchema_Comment = input_Comment input\<rparr>;
               v = ValidateReview New review
           in if \<not> Valid v then (failedValidationResponse v, db)
              else case IsUserOrderedProduct strict (RatingSchema_UserId review)
                          (input_ProductId input) db of
                Inl err \<Rightarrow> (serverErrorResponse err, db)
              | Inr False \<Rightarrow> (notPermittedReview, db)
              | Inr True \<Rightarrow>
                  (case ProductModel_InsertReview review (input_ProductId input) db of
                     (Some err, db') \<Rightarrow> (serverErrorResponse err, db')
                   | (None, db') \<Rightarrow> (StatusCreated review, db'))))"

text \<open>
  The gate as the claim words it: some order placed by the user holds an item of the
  product.
\<close>

definition has_ordered :: "store \<Rightarrow> int \<Rightarrow> int \<Rightarrow> bool" where
  "has_ordered db userId productId =
     list_ex (\<lambda>item. oi_product_id item = productId \<and>
                (case orders db (oi_order_id item) of
                   None \<Rightarrow> False
                 | Some row \<Rightarrow> o_user_id row = userId))
       (order_items db)"

section \<open>Updates\<close>

text \<open>
  \<open>ProductModel.Update\<close> (lines 150-185):
  \<open>UPDATE products SET title = $1, owner = $2, description = $3, images = $4, colors = $5,
    quantity = $6, price = $7, version = version + 1
    WHERE product_id = $8 AND version = $9 RETURNING version\<close>.
  The arguments must fit the columns of migration 000001 (\<open>title VARCHAR(255)\<close>,
  \<open>colors varchar(20)[]\<close>, \<open>price NUMERIC(10, 2)\<close>, the integers); no matching row is
  an edit conflict; the new row must keep the check constraint and the owner must be a
  user.
\<close>

definition ProductModel_Update :: "Product \<Rightarrow> store \<Rightarrow> (error + Product) \<times> store" where
  "ProductModel_Update product db =
     (if \<not> (int4 (Product_Owner product) \<and> int4 (Product_Quantity product)
              \<and> int4 (Product_ID product) \<and> int4 (Product_Version product))
        then (Inl EncodeError, db)
      else if \<not> (varchar 255 (Product_Title product)
                   \<and> list_all (varchar 20) (Product_Colors product))
        then (Inl StringDataRightTruncation, db)
      else if \<not> numeric_10_2 (Product_Price product) then (Inl NumericValueOutOfRange, db)
      else case products db (Product_ID product) of
        None \<Rightarrow> (Inl ErrEditConflict, db)
      | Some row \<Rightarrow>
          if p_version row \<noteq> Product_Version product then (Inl ErrEditConflict, db)
          else if \<not> int4 (p_version row + 1) then (Inl NumericValueOutOfRange, db)
          else if \<not> quantity_check (Product_Quantity product)
            then (Inl (CheckViolation ''products'' ''quantity_check''), db)
          else if Product_Owner product \<notin> users db
            then (Inl (ForeignKeyViolation ''products''), db)
          else (Inr (product\<lparr>Product_Version := p_version row + 1\<rparr>),
                db\<lparr>products := (products db)(Product_ID product \<mapsto>
                  \<lparr>p_title = take 255 (Product_Title product),
                   p_owner = Product_Owner product,
                   p_description = Product_Description product,
                   p_images = Product_Images product,
                   p_colors = map (take 20) (Product_Colors product),
                   p_quantity = Product_Quantity product,
                   p_price = Product_Price product,
                   p_version = p_version row + 1\<rparr>)\<rparr>))"

text \<open>
  \<open>OrderModel.Update\<close> (lines 228-254):
  \<open>UPDATE orders SET status = $1 WHERE id = $2 AND version = $3 RETURNING version\<close>.
  The statement does not touch the version it returns.
\<close>

definition OrderModel_Update :: "Order \<Rightarrow> store \<Rightarrow> (error + Order) \<times> store" where
  "OrderModel_Update order db =
     (if \<not> (int4 (Order_Status order) \<and> int4 (Order_ID order) \<and> int4 (Order_Version order))
        then (Inl EncodeError, db)
      else case orders db (Order_ID order) of
        None \<Rightarrow> (Inl ErrEditConflict, db)
      | Some row \<Rightarrow>
          if o_version row \<noteq> Order_Version order then (Inl ErrEditConflict, db)
          else (Inr (order\<lparr>Order_Version := o_version row\<rparr>),
                db\<lparr>orders := (orders db)(Order_ID order \<mapsto>
                  row\<lparr>o_status := Order_Status order\<rparr>)\<rparr>))"

text \<open>
  \<open>CategoryModel.Update\<close> (lines 107-135):
  \<open>UPDATE categories SET title = $1, image = $2 WHERE id = $3 RETURNING id\<close>.
  \<open>Category\<close> has no version, and neither has the statement. The migration of table
  \<open>categories\<close> is not among the sources: its \<open>id\<close> is taken as an integer column like
  the other keys, \<open>title\<close> and \<open>image\<close> as text.
\<close>

definition CategoryModel_Update :: "Category \<Rightarrow> store \<Rightarrow> (error + Category) \<times> store" where
  "CategoryModel_Update category db =
     (if \<not> int4 (Category_ID category) then (Inl EncodeError, db)
      else case categories db (Category_ID category) of
        None \<Rightarrow> (Inl ErrEditConflict, db)
      | Some row \<Rightarrow>
          (Inr category,
           db\<lparr>categories := (categories db)(Category_ID category \<mapsto>
             \<lparr>c_title = Category_Title category, c_image = Category_Image category\<rparr>)\<rparr>))"

section \<open>Reading and deleting by id\<close>

text \<open>
  \<open>ProductModel.GetReviews\<close> (lines 346-379) and the categories query of
  \<open>ProductModel.Get\<close> (lines 118-138): the categories joined to the product through
  \<open>product_category\<close>.
\<close>

definition ProductModel_GetReviews :: "int \<Rightarrow> store \<Rightarrow> error + RatingSchema list" where
  "ProductModel_GetReviews productId db =
     (if productId < 1 then Inl ErrRecordNotFound
      else if \<not> int4 productId then Inl EncodeError
      else Inr (map (\<lambda>row. \<lparr>RatingSchema_UserId = r_user_id row,
                             RatingSchema_Rating = r_rating row,
                             RatingSchema_Comment = r_comment row\<rparr>)
                  (filter (\<lambda>row. r_product_id row = productId) (ratings db))))"

definition categories_of :: "store \<Rightarrow> int \<Rightarrow> Category list" where
  "categories_of db pid =
     concat (map (\<lambda>(p, c).
                if p = pid \<and> products db p \<noteq> None then
                  (case categories db c of
                     None \<Rightarrow> []
                   | Some row \<Rightarrow> [\<lparr>Category_ID = c, Category_Title = c_title row,
                                   Category_Image = c_image row\<rparr>])
                else [])
             (product_category db))"

text \<open>\<open>ProductModel.Get\<close> (lines 79-147).\<close>

definition ProductModel_Get :: "int \<Rightarrow> store \<Rightarrow> error + Product" where
  "ProductModel_Get id' db =
     (if id' < 1 then Inl ErrRecordNotFound
      else case select_product db id' of
        Inl err \<Rightarrow> (if err = ErrNoRows then Inl ErrRecordNotFound else Inl err)
      | Inr product \<Rightarrow>
          (case ProductModel_GetReviews (Product_ID product) db of
             Inl err \<Rightarrow> Inl err
           | Inr reviews \<Rightarrow>
               Inr (product\<lparr>Product_Categories := categories_of db (Product_ID product),
                           Product_Ratings := reviews\<rparr>)))"

text \<open>
  \<open>ProductModel.Delete\<close> (lines 188-219):
  \<open>DELETE FROM products WHERE product_id = $1 returning product_id\<close>. The rows of
  \<open>order_items\<close> and \<open>ratings\<close> that reference the product go with it
  (\<open>ON DELETE CASCADE\<close>, migrations 000009 and 000006), and so, it is assumed, do those
  of \<open>product_category\<close>, whose migration is not among the sources.
  For an id below 1 the method returns the driver's error, not \<open>ErrRecordNotFound\<close>.
\<close>

definition ProductModel_Delete :: "int \<Rightarrow> store \<Rightarrow> error option \<times> store" where
  "ProductModel_Delete id' db =
     (if id' < 1 then (Some ErrNoRows, db)
      else if \<not> int4 id' then (Some EncodeError, db)
      else case products db id' of
        None \<Rightarrow> (Some ErrRecordNotFound, db)
      | Some row \<Rightarrow>
          (None, db\<lparr>products := (products db)(id' := None),
                    order_items := filter (\<lambda>item. oi_product_id item \<noteq> id') (order_items db),
                    ratings := filter (\<lambda>row. r_product_id row \<noteq> id') (ratings db),
                    product_category := filter (\<lambda>(p, c). p \<noteq> id') (product_category db)\<rparr>))"

text \<open>
  \<open>OrderModel.Delete\<close> (lines 256-287):
  \<open>DELETE FROM orders WHERE id = $1 returning user_id\<close>; the items of the order go
  with it.
\<close>

definition OrderModel_Delete :: "int \<Rightarrow> store \<Rightarrow> error option \<times> store" where
  "OrderModel_Delete id' db =
     (if id' < 1 then (Some ErrNoRows, db)
      else if \<not> int4 id' then (Some EncodeError, db)
      else case orders db id' of
        None \<Rightarrow> (Some ErrRecordNotFound, db)
      | Some row \<Rightarrow>
          (None, db\<lparr>orders := (orders db)(id' := None),
                    order_items := filter (\<lambda>item. oi_order_id item \<noteq> id') (order_items db)\<rparr>))"

text \<open>
  The handlers \<open>showProductHandler\<close>, \<open>deleteProductHandler\<close> (cmd/api/products.go) and
  \<open>deleteOrderHandler\<close> (cmd/api/orders.go). \<open>readIDParam\<close> is not among the sources:
  its outcome is the argument \<open>idParam\<close>, \<open>Inl\<close> when it returned an error. Only
  \<open>ErrRecordNotFound\<close> is answered as not found; any other error is a server error.
\<close>

definition showProductHandler :: "string + int \<Rightarrow> store \<Rightarrow> Product response" where
  "showProductHandler idParam db =
     (case idParam of
        Inl err \<Rightarrow> notFoundResponse
      | Inr id' \<Rightarrow>
          (case ProductModel_Get id' db of
             Inl err \<Rightarrow> (if err = ErrRecordNotFound then notFoundResponse
                         else serverErrorResponse err)
           | Inr product \<Rightarrow> StatusOK product))"

definition deleteProductHandler :: "string + int \<Rightarrow> store \<Rightarrow> string response \<times> store" where
  "deleteProductHandler idParam db =
     (case idParam of
        Inl err \<Rightarrow> (notFoundResponse, db)
      | Inr id' \<Rightarrow>
          (case ProductModel_Delete id' db of
             (Some err, db') \<Rightarrow> (if err = ErrRecordNotFound then (notFoundResponse, db')
                                 else (serverErrorResponse err, db'))
           | (None, db') \<Rightarrow> (StatusOK ''product successfully deleted'', db')))"

definition deleteOrderHandler :: "string + int \<Rightarrow> store \<Rightarrow> string response \<times> store" where
  "deleteOrderHandler idParam db =
     (case idParam of
        Inl err \<Rightarrow> (notFoundResponse, db)
      | Inr id' \<Rightarrow>
          (case OrderModel_Delete id' db of
             (Some err, db') \<Rightarrow> (if err = ErrRecordNotFound then (notFoundResponse, db')
                                 else (serverErrorResponse err, db'))
           | (None, db') \<Rightarrow> (StatusOK ''order successfully deleted'', db')))"

section \<open>Listings\<close>

text \<open>
  \<open>Filters\<close>, as the handlers fill it. Modelled from the spec: \<open>Metadata\<close>,
  \<open>calculateMetadata\<close> and \<open>ValidateFilters\<close> are in a file that is not among the
  sources. The spec (4.3): the metadata "includes current page, page size, total records,
  and total pages = ceil(total/page_size), with conventions: if total records is 0,
  reported metadata is all zeros (no division)"; "an out-of-allow-list sort key must fail
  validation before any query executes". The spec gives no bound for the page and the page
  size, so \<open>ValidateFilters\<close> holds the allow-list rule alone, and the number of pages
  means something for a positive page size only.
\<close>

record Filters =
  Filters_Page :: int
  Filters_PageSize :: int
  Filters_Sort :: string
  Filters_SortSafelist :: "string list"

record Metadata =
  Metadata_CurrentPage :: int
  Metadata_PageSize :: int
  Metadata_TotalRecords :: int
  Metadata_TotalPages :: int

definition calculateMetadata :: "int \<Rightarrow> int \<Rightarrow> int \<Rightarrow> Metadata" where
  "calculateMetadata totalRecords page pageSize =
     (if totalRecords = 0
        then \<lparr>Metadata_CurrentPage = 0, Metadata_PageSize = 0, Metadata_TotalRecords = 0,
              Metadata_TotalPages = 0\<rparr>
      else \<lparr>Metadata_CurrentPage = page, Metadata_PageSize = pageSize,
            Metadata_TotalRecords = totalRecords,
            Metadata_TotalPages = \<lceil>(of_int totalRecords :: rat) / of_int pageSize\<rceil>\<rparr>)"

definition ValidateFilters :: "Validator \<Rightarrow> Filters \<Rightarrow> Validator" where
  "ValidateFilters v f =
     Check v (In (Filters_Sort f) (Filters_SortSafelist f)) ''sort'' ''invalid sort value''"

text \<open>
  \<open>listProductsHandler\<close> (cmd/api/products.go, lines 198-227) and
  \<open>listUserOrdersHandler\<close> (cmd/api/orders.go, lines 50-75). The query string as the
  read helpers returned it, defaults applied, with the validator they wrote their own
  violations to. The handlers reach the store through the interface of \<open>Models\<close>, so
  \<open>GetAll\<close> and \<open>GetAllOrdersForUser\<close> are arguments: any function from its inputs and
  a state to a result and a state.
\<close>

record list_query =
  query_v :: Validator
  query_Title :: string
  query_Categories :: "string list"
  query_Page :: int
  query_PageSize :: int
  query_Sort :: string

definition listProductsHandler ::
  "(string \<Rightarrow> string list \<Rightarrow> Filters \<Rightarrow> 's \<Rightarrow> (error + 'a \<times> Metadata) \<times> 's)
     \<Rightarrow> list_query \<Rightarrow> 's \<Rightarrow> ('a \<times> Metadata) response \<times> 's" where
  "listProductsHandler GetAll qs st =
     (let filters = \<lparr>Filters_Page = query_Page qs, Filters_PageSize = query_PageSize qs,
                      Filters_Sort = query_Sort qs,
                      Filters_SortSafelist =
                        [''product_id'', ''title'', ''price'', ''quantity'', ''total_rating'',
                         ''-product_id'', ''-title'', ''-price'', ''-quantity'',
                         ''-total_rating'']\<rparr>;
          v = ValidateFilters (query_v qs) filters
      in if \<not> Valid v then (failedValidationResponse v, st)
         else case GetAll (query_Title qs) (query_Categories qs) filters st of
           (Inl err, st') \<Rightarrow> (serverErrorResponse err, st')
         | (Inr listing, st') \<Rightarrow> (StatusOK listing, st'))"

definition listUserOrdersHandler ::
  "(int \<Rightarrow> Filters \<Rightarrow> 's \<Rightarrow> (error + 'a \<times> Metadata) \<times> 's)
     \<Rightarrow> int \<Rightarrow> list_query \<Rightarrow> 's \<Rightarrow> ('a \<times> Metadata) response \<times> 's" where
  "listUserOrdersHandler GetAllOrdersForUser userId qs st =
     (let filters = \<lparr>Filters_Page = query_Page qs, Filters_PageSize = query_PageSize qs,
                      Filters_Sort = query_Sort qs,
                      Filters_SortSafelist = [''product_id'']\<rparr>;
          v = ValidateFilters (query_v qs) filters
      in if \<not> Valid v then (failedValidationResponse v, st)
         else case GetAllOrdersForUser userId filters st of
           (Inl err, st') \<Rightarrow> (serverErrorResponse err, st')
         | (Inr listing, st') \<Rightarrow> (StatusOK listing, st'))"

section \<open>A shop to run the code on\<close>

text \<open>
  Two users (1 and 3), one category, and two products: product 5 with 3 in stock at price
  10, product 9 with 10 in stock at price 4, both at version 1. No order has been placed.
\<close>

definition tea :: products_row where
  "tea = \<lparr>p_title = ''tea'', p_owner = 1, p_description = ''a tin of green tea'',
          p_images = [], p_colors = [], p_quantity = 3, p_price = 10, p_version = 1\<rparr>"

definition mug :: products_row where
  "mug = \<lparr>p_title = ''mug'', p_owner = 1, p_description = ''a mug for the tea'',
          p_images = [], p_colors = [''white''], p_quantity = 10, p_price = 4, p_version = 1\<rparr>"

definition shop :: store where
  "shop = \<lparr>users = {1, 3},
           products = [5 \<mapsto> tea, 9 \<mapsto> mug],
           product_category = [(5, 1), (9, 1)],
           categories = [1 \<mapsto> \<lparr>c_title = ''kitchen'', c_image = ''kitchen.png''\<rparr>],
           orders = Map.empty, orders_id_seq = 1, order_items = [], ratings = []\<rparr>"

text \<open>An order for the given (product id, quantity) pairs, as the handler builds it.\<close>

definition order_for :: "(int \<times> int) list \<Rightarrow> Order" where
  "order_for pairs =
     \<lparr>Order_ID = 0, Order_Status = 0, Order_Address = ''1 Main St'', Order_UserId = 1,
      Order_TotalPrice = 0,
      Order_OrderItems =
        Some (map (\<lambda>(p, q). \<lparr>OrderItem_ProductId = p, OrderItem_Quantity = q\<rparr>) pairs),
      Order_Version = 0\<rparr>"

text \<open>
  The shop after user 1 has bought 3 of product 5, and the shop after user 3 has bought
  1 of product 9.
\<close>

definition placed :: store where
  "placed = snd (OrderModel_Insert 1 (order_for [(5, 3)]) shop)"

definition gift :: store where
  "gift = snd (OrderModel_Insert 3 (order_for [(9, 1)]) shop)"

text \<open>Product 5 of the shop as its owner edits it, read at the given version.\<close>

definition edited_tea :: "int \<Rightarrow> Product" where
  "edited_tea ver =
     \<lparr>Product_ID = 5, Product_Title = ''green tea'', Product_Owner = 1,
      Product_Description = ''a tin of green tea'', Product_Quantity = 7,
      Product_Colors = [], Product_Images = [], Product_Price = 12, Product_Version = ver,
      Product_Categories = [], Product_Ratings = []\<rparr>"

text \<open>Order 1 with its status set to 2, read at the given version.\<close>

definition shipped :: "int \<Rightarrow> Order" where
  "shipped ver = (order_for [])\<lparr>Order_ID := 1, Order_Status := 2, Order_Version := ver\<rparr>"

lemmas placement_defs =
  OrderModel_Insert_def slice_def select_product_def int4_def reserve_def decrement_stock_def
  quantity_check_def insert_order_def insert_order_item_def varchar_def numeric_10_2_def

lemmas shop_defs = shop_def tea_def mug_def order_for_def

section \<open>Facts about order placement\<close>



lemma reserve_never_EditConflict:
  "reserve product item db = Inl err \<Longrightarrow> err \<noteq> ErrEditConflict"
  by (auto simp: reserve_def decrement_stock_def split: sum.splits option.splits if_splits)


lemma reserve_items_single:
  "reserve_items (item # items) t db =
     (case reserve_items [item] t db of
        (Inl err, db1) \<Rightarrow> (Inl err, db1)
      | (Inr t1, db1) \<Rightarrow> reserve_items items t1 db1)"
  by (auto split: sum.splits)

lemma reserve_items_single_Inl:
  "reserve_items [item] t db = (Inl err, db1) \<Longrightarrow> db1 = db"
  by (auto split: sum.splits if_splits)



















text \<open>A placement is a sequence of such statements, and so is a sequence of placements.\<close>

lemma reserve_statement:
  "reserve product item db = Inr db' \<Longrightarrow> statement db db'"
  by (auto simp: reserve_def split: sum.splits if_splits intro: statement.decrement)

lemma reserve_items_statements:
  "reserve_items items t db = (r, db') \<Longrightarrow> statement\<^sup>*\<^sup>* db db'"
proof (induction items arbitrary: t db)
  case Nil
  then show ?case by simp
next
  case (Cons item items)
  show ?case
  proof (cases "reserve_items [item] t db")
    case (Pair r1 db1)
    note whole = reserve_items_single[of item items t db, unfolded Pair]
    show ?thesis
    proof (cases r1)
      case (Inl err)
      with Pair have "db1 = db"
        using reserve_items_single_Inl by blast
      with Cons.prems whole Inl show ?thesis
        by (simp del: reserve_items.simps)
    next
      case (Inr t1)
      with Cons.prems whole have rest: "reserve_items items t1 db1 = (r, db')"
        by (simp del: reserve_items.simps)
      from Pair Inr obtain product where
        "reserve product item db = Inr db1"
        by (auto split: if_splits sum.splits)
      then have "statement db db1"
        by (rule reserve_statement)
      with Cons.IH[OF rest] show ?thesis
        by (rule converse_rtranclp_into_rtranclp[rotated])
    qed
  qed
qed

lemma insert_order_items_statements:
  "insert_order_items oid items db = (r, db') \<Longrightarrow> statement\<^sup>*\<^sup>* db db'"
proof (induction items arbitrary: db)
  case Nil
  then show ?case by simp
next
  case (Cons item items)
  show ?case
  proof (cases "insert_order_item db oid (OrderItem_ProductId item) (OrderItem_Quantity item)")
    case (Inl err)
    with Cons.prems show ?thesis by simp
  next
    case (Inr db1)
    with Cons.prems have "insert_order_items oid items db1 = (r, db')"
      by simp
    from Cons.IH[OF this] statement.line[OF Inr] show ?thesis
      by (rule converse_rtranclp_into_rtranclp[rotated])
  qed
qed

lemma OrderModel_Insert_statements:
  "statement\<^sup>*\<^sup>* db (snd (OrderModel_Insert userId order db))"
proof -
  let ?items = "slice (Order_OrderItems order)"
  obtain r1 db1 where r1: "reserve_items ?items 0 db = (r1, db1)"
    by (cases "reserve_items ?items 0 db")
  have s1: "statement\<^sup>*\<^sup>* db db1"
    using r1 by (rule reserve_items_statements)
  show ?thesis
  proof (cases r1)
    case (Inl err)
    with r1 s1 show ?thesis by (simp add: OrderModel_Insert_def)
  next
    case (Inr t)
    show ?thesis
    proof (cases "insert_order db1 userId t (Order_Address order)")
      case (Inl err)
      with r1 Inr s1 show ?thesis by (simp add: OrderModel_Insert_def)
    next
      case ins: (Inr res)
      obtain oid uid db2 where res: "res = ((oid, uid), db2)"
        by (cases res) auto
      obtain r3 db3 where r3: "insert_order_items oid ?items db2 = (r3, db3)"
        by (cases "insert_order_items oid ?items db2")
      have "statement db1 db2"
        using ins[unfolded res] by (rule statement.header)
      with s1 have "statement\<^sup>*\<^sup>* db db2"
        by (rule rtranclp.rtrancl_into_rtrancl)
      with insert_order_items_statements[OF r3] have "statement\<^sup>*\<^sup>* db db3"
        by (rule rtranclp_trans[rotated])
      with r1 Inr ins res r3 show ?thesis
        by (cases r3) (simp_all add: OrderModel_Insert_def)
    qed
  qed
qed

lemma run_placements_statements:
  "statement\<^sup>*\<^sup>* db (run_placements ps db)"
proof (induction ps arbitrary: db)
  case Nil
  then show ?case by simp
next
  case (Cons placement ps)
  obtain userId order where "placement = (userId, order)"
    by (cases placement)
  with OrderModel_Insert_statements[of db userId order]
    Cons.IH[of "snd (OrderModel_Insert userId order db)"]
  show ?case by simp
qed

section \<open>Facts about the stores and about pages\<close>

text \<open>The two stores, written out.\<close>

lemmas review_defs =
  createReviewHandler_def ValidateReview_def Check_def AddError_def Valid_def New_def
  IsUserOrderedProduct_def ProductModel_InsertReview_def has_ordered_def

lemma placed_eq:
  "placed = shop\<lparr>products := (products shop)(5 \<mapsto> tea\<lparr>p_quantity := 0, p_version := 2\<rparr>),
                 orders := [1 \<mapsto> \<lparr>o_user_id = 1, o_status = 0, o_total_price = 13,
                                   o_address = ''1 Main St'', o_version = 1\<rparr>],
                 orders_id_seq := 2,
                 order_items := [\<lparr>oi_order_id = 1, oi_product_id = 5, oi_quantity = 3\<rparr>]\<rparr>"
  by (simp add: placed_def placement_defs shop_defs)

lemma gift_eq:
  "gift = shop\<lparr>products := (products shop)(9 \<mapsto> mug\<lparr>p_quantity := 9, p_version := 2\<rparr>),
                 orders := [1 \<mapsto> \<lparr>o_user_id = 3, o_status = 0, o_total_price = 5,
                                   o_address = ''1 Main St'', o_version = 1\<rparr>],
                 orders_id_seq := 2,
                 order_items := [\<lparr>oi_order_id = 1, oi_product_id = 9, oi_quantity = 1\<rparr>]\<rparr>"
  by (simp add: gift_def placement_defs shop_defs)

lemma ceiling_pages:
  fixes n s :: int
  assumes "0 < s"
  shows "(\<lceil>(of_int n :: rat) / of_int s\<rceil> - 1) * s < n \<and> n \<le> \<lceil>(of_int n :: rat) / of_int s\<rceil> * s"
proof -
  let ?c = "\<lceil>(of_int n :: rat) / of_int s\<rceil>"
  have s: "(0::rat) < of_int s" using assms by simp
  have "(of_int ?c - 1) * of_int s < (of_int n :: rat)"
    using s by (rule ceiling_divide_lower)
  then have "(of_int ((?c - 1) * s) :: rat) < of_int n"
    by simp
  then have lo: "(?c - 1) * s < n"
    by (simp only: of_int_less_iff)
  have "(of_int n :: rat) \<le> of_int ?c * of_int s"
    using s by (rule ceiling_divide_upper)
  then have "(of_int n :: rat) \<le> of_int (?c * s)"
    by simp
  then have hi: "n \<le> ?c * s"
    by (simp only: of_int_le_iff)
  from lo hi show ?thesis ..
qed

section \<open>C1: Stock never goes negative\<close>




section \<open>C2: A placement that fails\<close>




section \<open>C3: The errors of the guarded decrement\<close>

text \<open>
  Claim C3. The guarded decrement that matches no row because the version of the product
  changed after it was read is reported as \<open>ErrRecordNotFound\<close>, not as
  \<open>ErrEditConflict\<close>: product 5 is read at version 1, another placement takes 1 of it
  (version 2, 2 left), and the decrement issued with the row read before fails as if the
  product did not exist. The check constraint is told apart: it gives \<open>ErrOutOfStock\<close>.
  No decrement is ever reported as \<open>ErrEditConflict\<close>.
\<close>

theorem C3_version_conflict_is_not_found:
  "(\<exists>product db1.
      select_product shop 5 = Inr product \<and> Product_Version product = 1
      \<and> db1 = snd (OrderModel_Insert 3 (order_for [(5, 1)]) shop)
      \<and> map_option p_version (products db1 5) = Some 2
      \<and> map_option p_quantity (products db1 5) = Some 2
      \<and> reserve product \<lparr>OrderItem_ProductId = 5, OrderItem_Quantity = 1\<rparr> db1
          = Inl ErrRecordNotFound
      \<and> reserve product \<lparr>OrderItem_ProductId = 5, OrderItem_Quantity = 4\<rparr> shop
          = Inl ErrOutOfStock)
   \<and> (\<forall>product item db. reserve product item db \<noteq> Inl ErrEditConflict)"
proof -
  have "\<exists>product db1.
      select_product shop 5 = Inr product \<and> Product_Version product = 1
      \<and> db1 = snd (OrderModel_Insert 3 (order_for [(5, 1)]) shop)
      \<and> map_option p_version (products db1 5) = Some 2
      \<and> map_option p_quantity (products db1 5) = Some 2
      \<and> reserve product \<lparr>OrderItem_ProductId = 5, OrderItem_Quantity = 1\<rparr> db1
          = Inl ErrRecordNotFound
      \<and> reserve product \<lparr>OrderItem_ProductId = 5, OrderItem_Quantity = 4\<rparr> shop
          = Inl ErrOutOfStock"
    by (simp add: placement_defs shop_defs)
  moreover have "\<forall>product item db. reserve product item db \<noteq> Inl ErrEditConflict"
    using reserve_never_EditConflict by blast
  ultimately show ?thesis ..
qed

section \<open>C4: The review gate\<close>

text \<open>
  Claim C4. The gate does not ask about the user and the product of the request. User 1
  has bought product 5, and the review of product 5 by user 1 is not accepted: it is a
  server error when the driver refuses the two arguments, and "not permitted" when it
  does not, since user 3 has not bought product 9. In the store where user 3 has bought
  product 9, the same review is accepted although user 1 has bought nothing.
\<close>

theorem C4_review_gate_ignores_user_and_product:
  "has_ordered placed 1 5
   \<and> createReviewHandler True 1
         (Inr \<lparr>input_ProductId = 5, input_Rating = 4, input_Comment = ''good tea''\<rparr>) placed
       = (serverErrorResponse (ArgumentCount 0 2), placed)
   \<and> createReviewHandler False 1
         (Inr \<lparr>input_ProductId = 5, input_Rating = 4, input_Comment = ''good tea''\<rparr>) placed
       = (notPermittedReview, placed)
   \<and> \<not> has_ordered gift 1 5
   \<and> fst (createReviewHandler False 1
         (Inr \<lparr>input_ProductId = 5, input_Rating = 4, input_Comment = ''good tea''\<rparr>) gift)
       = StatusCreated \<lparr>RatingSchema_UserId = 1, RatingSchema_Rating = 4,
                        RatingSchema_Comment = ''good tea''\<rparr>"
  unfolding placed_eq gift_eq
  by (simp add: review_defs int4_def shop_defs)

section \<open>C5: Versions\<close>

text \<open>
  Claim C5, as the spec states it: every update of a Product, an Order and a Category is
  conditioned on the version last seen and increments the version. The update of order 1
  at version 1 succeeds and leaves the order at version 1; and of two updates of category
  1 made from the same reading, the second overwrites the first and neither is refused.
\<close>

theorem C5_counterexample:
  "map_option o_version (orders placed 1) = Some 1
   \<and> (\<exists>order' db'.
         OrderModel_Update ((order_for [])\<lparr>Order_ID := 1, Order_Status := 2, Order_Version := 1\<rparr>)
           placed = (Inr order', db')
         \<and> Order_Version order' = 1
         \<and> map_option o_version (orders db' 1) = Some 1
         \<and> map_option o_status (orders db' 1) = Some 2)
   \<and> (\<exists>c1 db1 c2 db2.
         CategoryModel_Update
           \<lparr>Category_ID = 1, Category_Title = ''garden'', Category_Image = ''garden.png''\<rparr> shop
           = (Inr c1, db1)
         \<and> CategoryModel_Update
           \<lparr>Category_ID = 1, Category_Title = ''home'', Category_Image = ''kitchen.png''\<rparr> db1
           = (Inr c2, db2)
         \<and> categories db2 1 = Some \<lparr>c_title = ''home'', c_image = ''kitchen.png''\<rparr>)"
  unfolding placed_eq
  by (simp add: OrderModel_Update_def CategoryModel_Update_def int4_def shop_defs)

text \<open>
  Claim C5, amended. An update of a product succeeds only on the row with the id and the
  version of the product given, and then the version stored and the version returned are
  that version plus one; with a version other than the stored one it is an edit conflict
  and writes nothing. An update of an order succeeds only on the row with the id and the
  version of the order given; with a version other than the stored one it is an edit
  conflict and writes nothing. An update of a category is conditioned on the id alone:
  it overwrites the title and the image of the row with that id, and is an edit conflict
  when there is no such row.
\<close>

theorem C5_updates_and_versions:
  "(ProductModel_Update product db = (Inr product', db') \<longrightarrow>
      (\<exists>row. products db (Product_ID product) = Some row
         \<and> p_version row = Product_Version product
         \<and> Product_Version product' = p_version row + 1
         \<and> map_option p_version (products db' (Product_ID product)) = Some (p_version row + 1)))
   \<and> (int4 (Product_Owner stale) \<and> int4 (Product_Quantity stale)
        \<and> int4 (Product_ID stale) \<and> int4 (Product_Version stale)
        \<and> varchar 255 (Product_Title stale) \<and> list_all (varchar 20) (Product_Colors stale)
        \<and> numeric_10_2 (Product_Price stale)
        \<and> products db (Product_ID stale) = Some row
        \<and> p_version row \<noteq> Product_Version stale \<longrightarrow>
      ProductModel_Update stale db = (Inl ErrEditConflict, db))
   \<and> (OrderModel_Update order db = (Inr order', db'') \<longrightarrow>
      (\<exists>orow. orders db (Order_ID order) = Some orow \<and> o_version orow = Order_Version order))
   \<and> (int4 (Order_Status late) \<and> int4 (Order_ID late) \<and> int4 (Order_Version late)
        \<and> orders db (Order_ID late) = Some lrow
        \<and> o_version lrow \<noteq> Order_Version late \<longrightarrow>
      OrderModel_Update late db = (Inl ErrEditConflict, db))
   \<and> (int4 (Category_ID category) \<longrightarrow>
      CategoryModel_Update category db =
        (case categories db (Category_ID category) of
           None \<Rightarrow> (Inl ErrEditConflict, db)
         | Some crow \<Rightarrow>
             (Inr category,
              db\<lparr>categories := (categories db)(Category_ID category \<mapsto>
                \<lparr>c_title = Category_Title category, c_image = Category_Image category\<rparr>)\<rparr>)))"
proof (intro conjI impI)
  assume "ProductModel_Update product db = (Inr product', db')"
  then show "\<exists>row. products db (Product_ID product) = Some row
         \<and> p_version row = Product_Version product
         \<and> Product_Version product' = p_version row + 1
         \<and> map_option p_version (products db' (Product_ID product)) = Some (p_version row + 1)"
    by (auto simp: ProductModel_Update_def split: if_splits option.splits)
next
  assume "int4 (Product_Owner stale) \<and> int4 (Product_Quantity stale)
        \<and> int4 (Product_ID stale) \<and> int4 (Product_Version stale)
        \<and> varchar 255 (Product_Title stale) \<and> list_all (varchar 20) (Product_Colors stale)
        \<and> numeric_10_2 (Product_Price stale)
        \<and> products db (Product_ID stale) = Some row
        \<and> p_version row \<noteq> Product_Version stale"
  then show "ProductModel_Update stale db = (Inl ErrEditConflict, db)"
    by (simp add: ProductModel_Update_def)
next
  assume "OrderModel_Update order db = (Inr order', db'')"
  then show "\<exists>orow. orders db (Order_ID order) = Some orow \<and> o_version orow = Order_Version order"
    by (auto simp: OrderModel_Update_def split: if_splits option.splits)
next
  assume "int4 (Order_Status late) \<and> int4 (Order_ID late) \<and> int4 (Order_Version late)
        \<and> orders db (Order_ID late) = Some lrow
        \<and> o_version lrow \<noteq> Order_Version late"
  then show "OrderModel_Update late db = (Inl ErrEditConflict, db)"
    by (simp add: OrderModel_Update_def)
next
  assume "int4 (Category_ID category)"
  then show "CategoryModel_Update category db =
        (case categories db (Category_ID category) of
           None \<Rightarrow> (Inl ErrEditConflict, db)
         | Some crow \<Rightarrow>
             (Inr category,
              db\<lparr>categories := (categories db)(Category_ID category \<mapsto>
                \<lparr>c_title = Category_Title category, c_image = Category_Image category\<rparr>)\<rparr>))"
    by (simp add: CategoryModel_Update_def)
qed

theorem C5_witness:
  "(\<exists>product' db'. ProductModel_Update (edited_tea 2) placed = (Inr product', db')
       \<and> Product_Version product' = 3
       \<and> map_option p_version (products db' 5) = Some 3)
   \<and> map_option p_version (products placed 5) = Some 2
   \<and> ProductModel_Update (edited_tea 1) placed = (Inl ErrEditConflict, placed)
   \<and> (\<exists>order' db''. OrderModel_Update (shipped 1) placed = (Inr order', db''))
   \<and> map_option o_version (orders placed 1) = Some 1
   \<and> OrderModel_Update (shipped 0) placed = (Inl ErrEditConflict, placed)
   \<and> fst (CategoryModel_Update
            \<lparr>Category_ID = 1, Category_Title = ''home'', Category_Image = ''home.png''\<rparr> placed)
       = Inr \<lparr>Category_ID = 1, Category_Title = ''home'', Category_Image = ''home.png''\<rparr>"
proof -
  define row where "row = tea\<lparr>p_quantity := 0, p_version := 2\<rparr>"
  define lrow where "lrow = \<lparr>o_user_id = 1, o_status = 0, o_total_price = 13,
                              o_address = ''1 Main St'', o_version = 1\<rparr>"
  have prow: "products placed 5 = Some row" and orow: "orders placed 1 = Some lrow"
    unfolding placed_eq row_def lrow_def by simp_all
  obtain product' db' where
    h1: "ProductModel_Update (edited_tea 2) placed = (Inr product', db')"
    unfolding placed_eq
    by (simp add: ProductModel_Update_def edited_tea_def int4_def varchar_def numeric_10_2_def
        quantity_check_def shop_defs)
  have h2: "int4 (Product_Owner (edited_tea 1)) \<and> int4 (Product_Quantity (edited_tea 1))
        \<and> int4 (Product_ID (edited_tea 1)) \<and> int4 (Product_Version (edited_tea 1))
        \<and> varchar 255 (Product_Title (edited_tea 1))
        \<and> list_all (varchar 20) (Product_Colors (edited_tea 1))
        \<and> numeric_10_2 (Product_Price (edited_tea 1))
        \<and> products placed (Product_ID (edited_tea 1)) = Some row
        \<and> p_version row \<noteq> Product_Version (edited_tea 1)"
    using prow
    by (simp add: edited_tea_def int4_def varchar_def numeric_10_2_def row_def tea_def)
  obtain order' db'' where
    h3: "OrderModel_Update (shipped 1) placed = (Inr order', db'')"
    unfolding placed_eq
    by (simp add: OrderModel_Update_def shipped_def order_for_def int4_def)
  have h4: "int4 (Order_Status (shipped 0)) \<and> int4 (Order_ID (shipped 0))
        \<and> int4 (Order_Version (shipped 0))
        \<and> orders placed (Order_ID (shipped 0)) = Some lrow
        \<and> o_version lrow \<noteq> Order_Version (shipped 0)"
    using orow by (simp add: shipped_def order_for_def int4_def lrow_def)
  have h5: "int4 (Category_ID
              \<lparr>Category_ID = 1, Category_Title = ''home'', Category_Image = ''home.png''\<rparr>)"
    by (simp add: int4_def)
  have c5: "categories placed 1 \<noteq> None"
    unfolding placed_eq by (simp add: shop_def)
  note T = C5_updates_and_versions[where product = "edited_tea 2" and db = placed
      and product' = product' and db' = db' and stale = "edited_tea 1" and row = row
      and order = "shipped 1" and order' = order' and db'' = db''
      and late = "shipped 0" and lrow = lrow
      and category = "\<lparr>Category_ID = 1, Category_Title = ''home'', Category_Image = ''home.png''\<rparr>"]
  from T h1 h2 h3 h4 h5 c5 prow orow show ?thesis
    by (auto simp: edited_tea_def row_def lrow_def tea_def)
qed

section \<open>C6: The total price\<close>



section \<open>C7: The quantity of an item\<close>

text \<open>
  Claim C7, as the spec states it: an order with an item of quantity \<open>\<le> 0\<close> is rejected
  and changes no stock. The order of \<open>- 5\<close> of product 5 is answered with 201 and raises
  the stock from 3 to 8.
\<close>

theorem C7_counterexample:
  "\<exists>order' db'.
     orderProductHandler 1
       (Inr \<lparr>input_OrderItems = Some [\<lparr>OrderItem_ProductId = 5, OrderItem_Quantity = - 5\<rparr>],
             input_Address = ''1 Main St''\<rparr>) shop = (StatusCreated order', db')
     \<and> products shop 5 = Some tea
     \<and> products db' 5 = Some (tea\<lparr>p_quantity := 8, p_version := 2\<rparr>)
     \<and> p_quantity tea = 3"
  by (simp add: orderProductHandler_def ValidateOrder_def Check_def AddError_def Valid_def New_def
      placement_defs shop_defs)

text \<open>
  Claim C7, amended. No check reads the quantity of an item: \<open>ValidateOrder\<close> gives the
  same violations whatever the quantities are, and an order of a quantity \<open>q \<le> 0\<close> of an
  existing product, from a user of the store and with an address, is placed whenever the
  new row fits its columns: the stock becomes the old stock minus \<open>q\<close>, which is not
  below the old stock, and the version goes up by one.
\<close>

theorem C7_quantities_are_not_validated:
  assumes "q \<le> 0" and "int4 q"
    and "1 \<le> pid" and "int4 pid" and "products db pid = Some row"
    and "0 \<le> p_quantity row" and "int4 (p_quantity row - q)"
    and "int4 (p_version row)" and "int4 (p_version row + 1)"
    and "address \<noteq> []" and "varchar 255 address"
    and "0 \<le> userID" and "int4 userID" and "userID \<in> users db"
    and "int4 (orders_id_seq db)" and "numeric_10_2 (p_price row + of_int q)"
  shows "ValidateOrder v
           (order\<lparr>Order_OrderItems :=
              Some (map (\<lambda>item. item\<lparr>OrderItem_Quantity := f item\<rparr>) items)\<rparr>)
         = ValidateOrder v (order\<lparr>Order_OrderItems := Some items\<rparr>)
       \<and> (\<exists>order' db'.
            orderProductHandler userID
              (Inr \<lparr>input_OrderItems = Some [\<lparr>OrderItem_ProductId = pid, OrderItem_Quantity = q\<rparr>],
                    input_Address = address\<rparr>) db = (StatusCreated order', db')
            \<and> products db' pid
                = Some (row\<lparr>p_quantity := p_quantity row - q, p_version := p_version row + 1\<rparr>)
            \<and> p_quantity row \<le> p_quantity row - q)"
proof -
  have a: "ValidateOrder v
           (order\<lparr>Order_OrderItems :=
              Some (map (\<lambda>item. item\<lparr>OrderItem_Quantity := f item\<rparr>) items)\<rparr>)
         = ValidateOrder v (order\<lparr>Order_OrderItems := Some items\<rparr>)"
    by (simp add: ValidateOrder_def slice_def)
  have valid: "Valid (ValidateOrder New
       \<lparr>Order_ID = 0, Order_Status = 0, Order_Address = address, Order_UserId = userID,
        Order_TotalPrice = 0,
        Order_OrderItems = Some [\<lparr>OrderItem_ProductId = pid, OrderItem_Quantity = q\<rparr>],
        Order_Version = 0\<rparr>)"
    using assms(10,12) by (simp add: ValidateOrder_def Check_def Valid_def New_def slice_def)
  have chk: "quantity_check (p_quantity row - q)"
    using assms(1,6) by (simp add: quantity_check_def)
  have b: "\<exists>order' db'.
            orderProductHandler userID
              (Inr \<lparr>input_OrderItems = Some [\<lparr>OrderItem_ProductId = pid, OrderItem_Quantity = q\<rparr>],
                    input_Address = address\<rparr>) db = (StatusCreated order', db')
            \<and> products db' pid
                = Some (row\<lparr>p_quantity := p_quantity row - q, p_version := p_version row + 1\<rparr>)"
    using assms valid chk
    by (simp add: orderProductHandler_def OrderModel_Insert_def slice_def select_product_def
        reserve_def decrement_stock_def insert_order_def insert_order_item_def)
  from a b assms(1) show ?thesis by simp
qed

theorem C7_witness:
  "(- 5 :: int) \<le> 0 \<and> products shop 5 = Some tea
   \<and> (\<exists>order' db'.
        orderProductHandler 1
          (Inr \<lparr>input_OrderItems = Some [\<lparr>OrderItem_ProductId = 5, OrderItem_Quantity = - 5\<rparr>],
                input_Address = ''1 Main St''\<rparr>) shop = (StatusCreated order', db')
        \<and> products db' 5
            = Some (tea\<lparr>p_quantity := p_quantity tea - (- 5), p_version := p_version tea + 1\<rparr>)
        \<and> p_quantity tea \<le> p_quantity tea - (- 5))"
proof -
  have h: "(- 5 :: int) \<le> 0" "int4 (- 5)" "(1::int) \<le> 5" "int4 5" "products shop 5 = Some tea"
    "0 \<le> p_quantity tea" "int4 (p_quantity tea - (- 5))" "int4 (p_version tea)"
    "int4 (p_version tea + 1)"
    "''1 Main St'' \<noteq> []" "varchar 255 ''1 Main St''"
    "(0::int) \<le> 1" "int4 1" "1 \<in> users shop"
    "int4 (orders_id_seq shop)" "numeric_10_2 (p_price tea + of_int (- 5))"
    by (simp_all add: int4_def varchar_def numeric_10_2_def shop_defs)
  from C7_quantities_are_not_validated[OF h] h(1,5) show ?thesis
    by blast
qed

section \<open>C8: Pagination metadata\<close>

text \<open>
  Claim C8. With no record the metadata reports 0 records and 0 pages; with a positive
  number of records and a positive page size the number of pages is the ceiling of their
  quotient, the least number of pages that hold the records; 23 records in pages of 20
  are 2 pages.
\<close>

theorem C8_pagination_metadata:
  "Metadata_TotalRecords (calculateMetadata 0 page pageSize) = 0
   \<and> Metadata_TotalPages (calculateMetadata 0 page pageSize) = 0
   \<and> (0 < totalRecords \<and> 0 < pageSize \<longrightarrow>
        Metadata_TotalRecords (calculateMetadata totalRecords page pageSize) = totalRecords
        \<and> Metadata_TotalPages (calculateMetadata totalRecords page pageSize)
            = \<lceil>(of_int totalRecords :: rat) / of_int pageSize\<rceil>
        \<and> (Metadata_TotalPages (calculateMetadata totalRecords page pageSize) - 1) * pageSize
            < totalRecords
        \<and> totalRecords
            \<le> Metadata_TotalPages (calculateMetadata totalRecords page pageSize) * pageSize)
   \<and> Metadata_TotalPages (calculateMetadata 23 page 20) = 2"
proof -
  have zero: "Metadata_TotalRecords (calculateMetadata 0 page pageSize) = 0
              \<and> Metadata_TotalPages (calculateMetadata 0 page pageSize) = 0"
    by (simp add: calculateMetadata_def)
  have pos: "Metadata_TotalRecords (calculateMetadata totalRecords page pageSize) = totalRecords
        \<and> Metadata_TotalPages (calculateMetadata totalRecords page pageSize)
            = \<lceil>(of_int totalRecords :: rat) / of_int pageSize\<rceil>
        \<and> (Metadata_TotalPages (calculateMetadata totalRecords page pageSize) - 1) * pageSize
            < totalRecords
        \<and> totalRecords
            \<le> Metadata_TotalPages (calculateMetadata totalRecords page pageSize) * pageSize"
    if "0 < totalRecords" "0 < pageSize"
    using that ceiling_pages[of pageSize totalRecords] by (simp add: calculateMetadata_def)
  have "(\<lceil>(23 :: rat) / 20\<rceil> - 1) * 20 < (23::int) \<and> (23::int) \<le> \<lceil>(23 :: rat) / 20\<rceil> * 20"
    using ceiling_pages[of 20 23] by simp
  then have "\<lceil>(23 :: rat) / 20\<rceil> = 2"
    by arith
  then have ex: "Metadata_TotalPages (calculateMetadata 23 page 20) = 2"
    by (simp add: calculateMetadata_def)
  from zero pos ex show ?thesis by blast
qed

theorem C8_witness:
  "(0::int) < 45 \<and> (0::int) < 20
   \<and> Metadata_TotalRecords (calculateMetadata 45 2 20) = 45
   \<and> Metadata_TotalPages (calculateMetadata 45 2 20) = 3
   \<and> Metadata_TotalPages (calculateMetadata 0 2 20) = 0"
proof -
  have h: "(0::int) < 45 \<and> (0::int) < 20" by simp
  from C8_pagination_metadata[of 2 20 45] h have
    "Metadata_TotalRecords (calculateMetadata 45 2 20) = 45"
    "(Metadata_TotalPages (calculateMetadata 45 2 20) - 1) * 20 < 45"
    "45 \<le> Metadata_TotalPages (calculateMetadata 45 2 20) * 20"
    "Metadata_TotalPages (calculateMetadata 0 2 20) = 0"
    by blast+
  then show ?thesis by simp
qed

section \<open>C9: The sort allow-list\<close>

text \<open>
  Claim C9. A listing request whose sort key is not in the allow-list of its handler is
  answered with the validation failure, which has an entry for \<open>sort\<close>, and the state
  is the one before the call whatever the listing method of the model does: it is not
  called.
\<close>

theorem C9_sort_outside_safelist_runs_no_query:
  "(\<not> In (query_Sort qs)
          [''product_id'', ''title'', ''price'', ''quantity'', ''total_rating'',
           ''-product_id'', ''-title'', ''-price'', ''-quantity'', ''-total_rating''] \<longrightarrow>
      (\<exists>v. listProductsHandler GetAll qs st = (failedValidationResponse v, st)
         \<and> \<not> Valid v \<and> map_of v ''sort'' \<noteq> None))
   \<and> (\<not> In (query_Sort qs) [''product_id''] \<longrightarrow>
      (\<exists>v. listUserOrdersHandler GetAllOrdersForUser userId qs st'
              = (failedValidationResponse v, st')
         \<and> \<not> Valid v \<and> map_of v ''sort'' \<noteq> None))"
proof -
  have bad: "\<not> Valid (Check v False ''sort'' msg) \<and> map_of (Check v False ''sort'' msg) ''sort'' \<noteq> None"
    for v msg
    by (auto simp: Check_def AddError_def Valid_def map_add_def)
  show ?thesis
    using bad[of "query_v qs" "''invalid sort value''"]
    by (simp add: listProductsHandler_def listUserOrdersHandler_def ValidateFilters_def Let_def)
qed

theorem C9_witness:
  "\<not> In ''owner''
          [''product_id'', ''title'', ''price'', ''quantity'', ''total_rating'',
           ''-product_id'', ''-title'', ''-price'', ''-quantity'', ''-total_rating'']
   \<and> \<not> In ''owner'' [''product_id'']
   \<and> listProductsHandler (\<lambda>title categories filters n. (Inr ([] :: Product list, calculateMetadata 0 1 20), Suc n))
        \<lparr>query_v = New, query_Title = [], query_Categories = [], query_Page = 1,
         query_PageSize = 20, query_Sort = ''owner''\<rparr> (0 :: nat)
       = (failedValidationResponse [(''sort'', ''invalid sort value'')], 0)
   \<and> listUserOrdersHandler (\<lambda>userId filters n. (Inr ([] :: Order list, calculateMetadata 0 1 20), Suc n)) 1
        \<lparr>query_v = New, query_Title = [], query_Categories = [], query_Page = 1,
         query_PageSize = 20, query_Sort = ''owner''\<rparr> (0 :: nat)
       = (failedValidationResponse [(''sort'', ''invalid sort value'')], 0)"
proof -
  let ?qs = "\<lparr>query_v = New, query_Title = [], query_Categories = [], query_Page = 1,
         query_PageSize = 20, query_Sort = ''owner''\<rparr>"
  let ?GetAll = "\<lambda>(title :: string) (categories :: string list) (filters :: Filters) n.
        (Inr ([] :: Product list, calculateMetadata 0 1 20) :: error + Product list \<times> Metadata, Suc n)"
  let ?GetOrders = "\<lambda>(userId :: int) (filters :: Filters) n.
        (Inr ([] :: Order list, calculateMetadata 0 1 20) :: error + Order list \<times> Metadata, Suc n)"
  have h1: "\<not> In (query_Sort ?qs)
          [''product_id'', ''title'', ''price'', ''quantity'', ''total_rating'',
           ''-product_id'', ''-title'', ''-price'', ''-quantity'', ''-total_rating'']"
    and h2: "\<not> In (query_Sort ?qs) [''product_id'']"
    by (simp_all add: In_def)
  from C9_sort_outside_safelist_runs_no_query[of ?qs ?GetAll "0::nat" ?GetOrders 1 "0::nat"] h1 h2
  obtain v v' where
    "listProductsHandler ?GetAll ?qs 0 = (failedValidationResponse v, 0)"
    "listUserOrdersHandler ?GetOrders 1 ?qs 0 = (failedValidationResponse v', 0)"
    by blast
  moreover have "fst (listProductsHandler ?GetAll ?qs 0)
                   = failedValidationResponse [(''sort'', ''invalid sort value'')]"
    "fst (listUserOrdersHandler ?GetOrders 1 ?qs 0)
                   = failedValidationResponse [(''sort'', ''invalid sort value'')]"
    by (simp_all add: listProductsHandler_def listUserOrdersHandler_def ValidateFilters_def
        Check_def AddError_def In_def New_def Valid_def)
  ultimately show ?thesis
    using h1 h2 by simp
qed

section \<open>C10: Ids below 1\<close>

text \<open>
  Claim C10. For an id below 1, \<open>ProductModel.Delete\<close> and \<open>OrderModel.Delete\<close> return
  the driver's \<open>ErrNoRows\<close>, which the delete handlers answer as a server error, when
  \<open>readIDParam\<close> hands them such an id; \<open>ProductModel.Get\<close> returns
  \<open>ErrRecordNotFound\<close>, which \<open>showProductHandler\<close> answers as not found.
\<close>

theorem C10_delete_below_one_is_server_error:
  assumes "id' < 1"
  shows "ProductModel_Delete id' db = (Some ErrNoRows, db)
       \<and> OrderModel_Delete id' db = (Some ErrNoRows, db)
       \<and> deleteProductHandler (Inr id') db = (serverErrorResponse ErrNoRows, db)
       \<and> deleteOrderHandler (Inr id') db = (serverErrorResponse ErrNoRows, db)
       \<and> ProductModel_Get id' db = Inl ErrRecordNotFound
       \<and> showProductHandler (Inr id') db = notFoundResponse"
  using assms
  by (simp add: ProductModel_Delete_def OrderModel_Delete_def deleteProductHandler_def
      deleteOrderHandler_def ProductModel_Get_def showProductHandler_def)

theorem C10_witness:
  "(0::int) < 1
   \<and> ProductModel_Delete 0 shop = (Some ErrNoRows, shop)
   \<and> OrderModel_Delete 0 shop = (Some ErrNoRows, shop)
   \<and> deleteProductHandler (Inr 0) shop = (serverErrorResponse ErrNoRows, shop)
   \<and> deleteOrderHandler (Inr 0) shop = (serverErrorResponse ErrNoRows, shop)
   \<and> ProductModel_Get 0 shop = Inl ErrRecordNotFound
   \<and> showProductHandler (Inr 0) shop = notFoundResponse"
proof -
  have h: "(0::int) < 1" by simp
  from C10_delete_below_one_is_server_error[OF h, of shop] h show ?thesis
    by simp
qed

end
